theory Spec2Isabelle
  imports Main
begin

section \<open>JavaScript values\<close>

text \<open>
  The slice in \<^verbatim>\<open>src/store/vmSlice.ts\<close> is a Redux reducer over plain JavaScript objects.
  The payload types it imports from \<^verbatim>\<open>../vm\<close> and \<^verbatim>\<open>dirplayer-js-api\<close> are not part of the
  slice; a payload whose declaration is not at hand is a \<open>jsval\<close>, and an object that the
  slice rebuilds with the spread operator is the finite map of its own properties.
\<close>

datatype jsval =
    JsUndefined
  | JsNull
  | JsBool bool
  | JsNum int
  | JsStr string
  | JsObj "string \<Rightarrow> jsval option"

type_synonym jsobj = "string \<rightharpoonup> jsval"

text \<open>The only fault the slice can raise: reading a property of \<^verbatim>\<open>undefined\<close>.\<close>

datatype error = TypeError

text \<open>
  \<^verbatim>\<open>{ ...x }\<close> where \<^verbatim>\<open>x\<close> may be \<^verbatim>\<open>undefined\<close>: spreading \<^verbatim>\<open>undefined\<close> copies nothing
  and does not throw.
\<close>

definition spread :: "jsobj option \<Rightarrow> jsobj" where
  "spread x = (case x of None \<Rightarrow> Map.empty | Some obj \<Rightarrow> obj)"

text \<open>
  \<^verbatim>\<open>x?.snapshot\<close>: \<^verbatim>\<open>undefined\<close> when \<^verbatim>\<open>x\<close> is \<^verbatim>\<open>undefined\<close> and when the object has no
  such property.
\<close>

definition optSnapshot :: "jsobj option \<Rightarrow> jsval" where
  "optSnapshot x =
     (case x of
        None \<Rightarrow> JsUndefined
      | Some obj \<Rightarrow> (case obj ''snapshot'' of None \<Rightarrow> JsUndefined | Some v \<Rightarrow> v))"

section \<open>The state of the slice\<close>

text \<open>\<^verbatim>\<open>ICastMemberIdentifier\<close>, as \<^verbatim>\<open>selectMemberSnapshotById\<close> reads it.\<close>

record iCastMemberIdentifier =
  castNumber :: int
  memberNumber :: int

text \<open>\<^verbatim>\<open>TMemberSubscription\<close>; the field \<^verbatim>\<open>id\<close> is \<open>id_t\<close> here.\<close>

record tMemberSubscription =
  memberRef :: iCastMemberIdentifier
  id_t :: string

text \<open>
  \<^verbatim>\<open>CastSnapshot\<close>, as \<^verbatim>\<open>castMemberListChanged\<close> builds it. A member entry is an object
  that \<^verbatim>\<open>castMemberChanged\<close> rebuilds by spreading, hence a \<open>jsobj\<close>.
\<close>

record castSnapshot =
  number :: int
  members :: "int \<rightharpoonup> jsobj"

text \<open>
  \<^verbatim>\<open>JsBridgeBreakpoint\<close>: the slice reads \<^verbatim>\<open>script_name\<close> only; the other fields are the
  extension of the record.
\<close>

record jsBridgeBreakpoint =
  script_name :: string

text \<open>
  \<^verbatim>\<open>VMSliceState\<close>. \<open>'dref\<close> is \<^verbatim>\<open>DatumRef\<close> and \<open>'sid\<close> is \<^verbatim>\<open>ScriptInstanceId\<close>, both
  used as keys only. A \<^verbatim>\<open>Record<K, V>\<close> is a map, an optional property an \<open>option\<close>.
\<close>

record ('b, 'dref, 'sid) vmSliceState =
  castNames :: "string list"
  castSnapshots :: "int \<rightharpoonup> castSnapshot"
  scoreSnapshot :: "jsval option"
  currentFrame :: int
  scopes :: "jsval list"
  scriptError :: "string option"
  breakpoints :: "'b jsBridgeBreakpoint_scheme list"
  globals :: "string \<rightharpoonup> 'dref"
  timeoutHandles :: "string \<rightharpoonup> jsval"
  datumSnapshots :: "'dref \<rightharpoonup> jsval"
  scriptInstanceSnapshots :: "'sid \<rightharpoonup> jsval"
  channelSnapshots :: "int \<rightharpoonup> jsobj"
  subscribedMemberTokens :: "tMemberSubscription list"
  isMovieLoaded :: bool

definition initialState :: "('b, 'dref, 'sid) vmSliceState" where
  "initialState =
     \<lparr> castNames = [],
       castSnapshots = Map.empty,
       scoreSnapshot = None,
       currentFrame = 1,
       scopes = [],
       scriptError = None,
       breakpoints = [],
       globals = Map.empty,
       timeoutHandles = Map.empty,
       datumSnapshots = Map.empty,
       scriptInstanceSnapshots = Map.empty,
       channelSnapshots = Map.empty,
       subscribedMemberTokens = [],
       isMovieLoaded = False \<rparr>"

section \<open>The case reducers\<close>

text \<open>
  Each case reducer returns a new state built from the old one by spreading. Only
  \<^verbatim>\<open>castMemberChanged\<close> reads a property of a value that may be \<^verbatim>\<open>undefined\<close>, so it
  alone has an error result.
\<close>

definition castListChanged ::
  "('b, 'dref, 'sid) vmSliceState \<Rightarrow> string list \<Rightarrow> ('b, 'dref, 'sid) vmSliceState" where
  "castListChanged state payload = state\<lparr>castNames := payload\<rparr>"

definition castMemberListChanged ::
  "('b, 'dref, 'sid) vmSliceState \<Rightarrow> int \<Rightarrow> (int \<rightharpoonup> jsobj) \<Rightarrow> ('b, 'dref, 'sid) vmSliceState" where
  "castMemberListChanged state castNum membersP =
     state\<lparr>castSnapshots :=
       (castSnapshots state)(castNum \<mapsto> \<lparr>number = castNum, members = membersP\<rparr>)\<rparr>"

text \<open>
  \<^verbatim>\<open>state.castSnapshots[castLibNum].members\<close> throws when the library is not there;
  \<^verbatim>\<open>...state.castSnapshots[castLibNum].members[memberNum]\<close> spreads \<^verbatim>\<open>undefined\<close> when the
  member is not there.
\<close>

definition castMemberChanged ::
  "('b, 'dref, 'sid) vmSliceState \<Rightarrow> int \<times> int \<Rightarrow> jsval \<Rightarrow> error + ('b, 'dref, 'sid) vmSliceState" where
  "castMemberChanged state memberRefP snapshotP =
     (let castLibNum = fst memberRefP;
          memberNum = snd memberRefP
      in case castSnapshots state castLibNum of
           None \<Rightarrow> Inl TypeError
         | Some cast \<Rightarrow>
             Inr (state\<lparr>castSnapshots :=
               (castSnapshots state)(castLibNum \<mapsto>
                 cast\<lparr>members :=
                   (members cast)(memberNum \<mapsto>
                     (spread (members cast memberNum))(''snapshot'' \<mapsto> snapshotP))\<rparr>)\<rparr>))"

definition scoreChanged ::
  "('b, 'dref, 'sid) vmSliceState \<Rightarrow> jsval \<Rightarrow> ('b, 'dref, 'sid) vmSliceState" where
  "scoreChanged state payload = state\<lparr>scoreSnapshot := Some payload\<rparr>"

definition frameChanged ::
  "('b, 'dref, 'sid) vmSliceState \<Rightarrow> int \<Rightarrow> ('b, 'dref, 'sid) vmSliceState" where
  "frameChanged state payload = state\<lparr>currentFrame := payload\<rparr>"

definition scopeListChanged ::
  "('b, 'dref, 'sid) vmSliceState \<Rightarrow> jsval list \<Rightarrow> ('b, 'dref, 'sid) vmSliceState" where
  "scopeListChanged state payload = state\<lparr>scopes := payload, datumSnapshots := Map.empty\<rparr>"

definition onScriptError ::
  "('b, 'dref, 'sid) vmSliceState \<Rightarrow> string \<Rightarrow> ('b, 'dref, 'sid) vmSliceState" where
  "onScriptError state payload = state\<lparr>scriptError := Some payload\<rparr>"

definition scriptErrorCleared ::
  "('b, 'dref, 'sid) vmSliceState \<Rightarrow> ('b, 'dref, 'sid) vmSliceState" where
  "scriptErrorCleared state = state\<lparr>scriptError := None\<rparr>"

definition breakpointListChanged ::
  "('b, 'dref, 'sid) vmSliceState \<Rightarrow> 'b jsBridgeBreakpoint_scheme list
     \<Rightarrow> ('b, 'dref, 'sid) vmSliceState" where
  "breakpointListChanged state payload = state\<lparr>breakpoints := payload\<rparr>"

definition globalsChanged ::
  "('b, 'dref, 'sid) vmSliceState \<Rightarrow> (string \<rightharpoonup> 'dref) \<Rightarrow> ('b, 'dref, 'sid) vmSliceState" where
  "globalsChanged state payload = state\<lparr>globals := payload\<rparr>"

definition setTimeoutHandle ::
  "('b, 'dref, 'sid) vmSliceState \<Rightarrow> string \<Rightarrow> jsval \<Rightarrow> ('b, 'dref, 'sid) vmSliceState" where
  "setTimeoutHandle state name handle =
     state\<lparr>timeoutHandles := (timeoutHandles state)(name \<mapsto> handle)\<rparr>"

text \<open>\<^verbatim>\<open>delete\<close> on a copy of the handles: deleting a property that is not there does nothing.\<close>

definition removeTimeoutHandle ::
  "('b, 'dref, 'sid) vmSliceState \<Rightarrow> string \<Rightarrow> ('b, 'dref, 'sid) vmSliceState" where
  "removeTimeoutHandle state payload =
     (let newHandles = (timeoutHandles state)(payload := None)
      in state\<lparr>timeoutHandles := newHandles\<rparr>)"

definition datumSnapshot ::
  "('b, 'dref, 'sid) vmSliceState \<Rightarrow> 'dref \<Rightarrow> jsval \<Rightarrow> ('b, 'dref, 'sid) vmSliceState" where
  "datumSnapshot state datumRef datum =
     state\<lparr>datumSnapshots := (datumSnapshots state)(datumRef \<mapsto> datum)\<rparr>"

definition scriptInstanceSnapshot ::
  "('b, 'dref, 'sid) vmSliceState \<Rightarrow> 'sid \<Rightarrow> jsval \<Rightarrow> ('b, 'dref, 'sid) vmSliceState" where
  "scriptInstanceSnapshot state scriptInstanceId datum =
     state\<lparr>scriptInstanceSnapshots := (scriptInstanceSnapshots state)(scriptInstanceId \<mapsto> datum)\<rparr>"

definition channelChanged ::
  "('b, 'dref, 'sid) vmSliceState \<Rightarrow> int \<Rightarrow> jsobj \<Rightarrow> ('b, 'dref, 'sid) vmSliceState" where
  "channelChanged state channelNumber channelData =
     state\<lparr>channelSnapshots := (channelSnapshots state)(channelNumber \<mapsto> channelData)\<rparr>"

definition channelDisplayNameChanged ::
  "('b, 'dref, 'sid) vmSliceState \<Rightarrow> int \<Rightarrow> string \<Rightarrow> ('b, 'dref, 'sid) vmSliceState" where
  "channelDisplayNameChanged state channelNumber displayName =
     state\<lparr>channelSnapshots :=
       (channelSnapshots state)(channelNumber \<mapsto>
         (spread (channelSnapshots state channelNumber))(''displayName'' \<mapsto> JsStr displayName))\<rparr>"

definition memberSubscribed ::
  "('b, 'dref, 'sid) vmSliceState \<Rightarrow> tMemberSubscription \<Rightarrow> ('b, 'dref, 'sid) vmSliceState" where
  "memberSubscribed state payload =
     state\<lparr>subscribedMemberTokens := subscribedMemberTokens state @ [payload]\<rparr>"

definition memberUnsubscribed ::
  "('b, 'dref, 'sid) vmSliceState \<Rightarrow> string \<Rightarrow> ('b, 'dref, 'sid) vmSliceState" where
  "memberUnsubscribed state payload =
     state\<lparr>subscribedMemberTokens :=
       filter (\<lambda>t. id_t t \<noteq> payload) (subscribedMemberTokens state)\<rparr>"

definition movieLoaded ::
  "('b, 'dref, 'sid) vmSliceState \<Rightarrow> ('b, 'dref, 'sid) vmSliceState" where
  "movieLoaded state = state\<lparr>isMovieLoaded := True\<rparr>"

section \<open>The slice reducer\<close>

text \<open>
  \<^verbatim>\<open>createSlice\<close> makes one action per case reducer and a reducer that runs the case
  reducer of the action it is given. A fault in the case reducer leaves the dispatch with no
  new state.
\<close>

datatype ('b, 'dref, 'sid) action =
    CastListChanged "string list"
  | CastMemberListChanged int "int \<rightharpoonup> jsobj"
  | CastMemberChanged "int \<times> int" jsval
  | ScoreChanged jsval
  | FrameChanged int
  | ScopeListChanged "jsval list"
  | OnScriptError string
  | ScriptErrorCleared
  | BreakpointListChanged "'b jsBridgeBreakpoint_scheme list"
  | GlobalsChanged "string \<rightharpoonup> 'dref"
  | SetTimeoutHandle string jsval
  | RemoveTimeoutHandle string
  | DatumSnapshot 'dref jsval
  | ScriptInstanceSnapshot 'sid jsval
  | ChannelChanged int jsobj
  | ChannelDisplayNameChanged int string
  | MemberSubscribed tMemberSubscription
  | MemberUnsubscribed string
  | MovieLoaded

fun reducer ::
  "('b, 'dref, 'sid) vmSliceState \<Rightarrow> ('b, 'dref, 'sid) action
     \<Rightarrow> error + ('b, 'dref, 'sid) vmSliceState" where
  "reducer state (CastListChanged names) = Inr (castListChanged state names)"
| "reducer state (CastMemberListChanged n ms) = Inr (castMemberListChanged state n ms)"
| "reducer state (CastMemberChanged r s) = castMemberChanged state r s"
| "reducer state (ScoreChanged s) = Inr (scoreChanged state s)"
| "reducer state (FrameChanged f) = Inr (frameChanged state f)"
| "reducer state (ScopeListChanged ss) = Inr (scopeListChanged state ss)"
| "reducer state (OnScriptError e) = Inr (onScriptError state e)"
| "reducer state ScriptErrorCleared = Inr (scriptErrorCleared state)"
| "reducer state (BreakpointListChanged bs) = Inr (breakpointListChanged state bs)"
| "reducer state (GlobalsChanged g) = Inr (globalsChanged state g)"
| "reducer state (SetTimeoutHandle n h) = Inr (setTimeoutHandle state n h)"
| "reducer state (RemoveTimeoutHandle n) = Inr (removeTimeoutHandle state n)"
| "reducer state (DatumSnapshot r d) = Inr (datumSnapshot state r d)"
| "reducer state (ScriptInstanceSnapshot i d) = Inr (scriptInstanceSnapshot state i d)"
| "reducer state (ChannelChanged n c) = Inr (channelChanged state n c)"
| "reducer state (ChannelDisplayNameChanged n d) = Inr (channelDisplayNameChanged state n d)"
| "reducer state (MemberSubscribed t) = Inr (memberSubscribed state t)"
| "reducer state (MemberUnsubscribed t) = Inr (memberUnsubscribed state t)"
| "reducer state MovieLoaded = Inr (movieLoaded state)"

section \<open>The selectors\<close>

definition selectCastSnapshot ::
  "('b, 'dref, 'sid) vmSliceState \<Rightarrow> int \<Rightarrow> castSnapshot option" where
  "selectCastSnapshot state num = castSnapshots state num"

text \<open>
  \<^verbatim>\<open>selectCastSnapshot(state, castNumber).members[String(memberNumber)]?.snapshot\<close>: the
  member is read through \<^verbatim>\<open>?.\<close>, the library is not.
\<close>

definition selectMemberSnapshot ::
  "('b, 'dref, 'sid) vmSliceState \<Rightarrow> int \<Rightarrow> int \<Rightarrow> error + jsval" where
  "selectMemberSnapshot state castNum memberNum =
     (case selectCastSnapshot state castNum of
        None \<Rightarrow> Inl TypeError
      | Some cast \<Rightarrow> Inr (optSnapshot (members cast memberNum)))"

definition selectMemberSnapshotById ::
  "('b, 'dref, 'sid) vmSliceState \<Rightarrow> iCastMemberIdentifier \<Rightarrow> error + jsval" where
  "selectMemberSnapshotById state ident =
     selectMemberSnapshot state (castNumber ident) (memberNumber ident)"

text \<open>
  \<^verbatim>\<open>!scriptName\<close> for an optional string: true for \<^verbatim>\<open>undefined\<close> and for the empty
  string.
\<close>

definition notStr :: "string option \<Rightarrow> bool" where
  "notStr s = (case s of None \<Rightarrow> True | Some v \<Rightarrow> v = [])"

definition selectBreakpoints ::
  "('b, 'dref, 'sid) vmSliceState \<Rightarrow> string option \<Rightarrow> 'b jsBridgeBreakpoint_scheme list" where
  "selectBreakpoints state scriptName =
     filter (\<lambda>b. notStr scriptName \<or> Some (script_name b) = scriptName) (breakpoints state)"

definition selectScoreSnapshot :: "('b, 'dref, 'sid) vmSliceState \<Rightarrow> jsval option" where
  "selectScoreSnapshot state = scoreSnapshot state"

definition selectCurrentFrame :: "('b, 'dref, 'sid) vmSliceState \<Rightarrow> int" where
  "selectCurrentFrame state = currentFrame state"

definition selectScopes :: "('b, 'dref, 'sid) vmSliceState \<Rightarrow> jsval list" where
  "selectScopes state = scopes state"

text \<open>\<^verbatim>\<open>state.scopes.at(state.scopes.length - 1)\<close>: \<^verbatim>\<open>undefined\<close> on the empty stack.\<close>

definition selectCurrentScope :: "('b, 'dref, 'sid) vmSliceState \<Rightarrow> jsval option" where
  "selectCurrentScope state = (if scopes state = [] then None else Some (last (scopes state)))"

definition selectScriptError :: "('b, 'dref, 'sid) vmSliceState \<Rightarrow> string option" where
  "selectScriptError state = scriptError state"

definition selectGlobals :: "('b, 'dref, 'sid) vmSliceState \<Rightarrow> (string \<rightharpoonup> 'dref)" where
  "selectGlobals state = globals state"

section \<open>Observations and example states\<close>

text \<open>
  The member entry stored under a library number and a member number, if both are there:
  what \<^verbatim>\<open>state.castSnapshots[l]?.members[m]\<close> would read.
\<close>

definition memberEntry ::
  "('b, 'dref, 'sid) vmSliceState \<Rightarrow> int \<Rightarrow> int \<Rightarrow> jsobj option" where
  "memberEntry state castNum memberNum =
     (case castSnapshots state castNum of
        None \<Rightarrow> None
      | Some cast \<Rightarrow> members cast memberNum)"

text \<open>
  Concrete states for the examples below: breakpoints with no further fields, numbers for
  \<^verbatim>\<open>DatumRef\<close> and \<^verbatim>\<open>ScriptInstanceId\<close>.
\<close>

type_synonym vmState = "(unit, int, int) vmSliceState"

definition exCastState :: vmState where
  "exCastState = initialState\<lparr>castSnapshots :=
      [1 \<mapsto> \<lparr>number = 1, members = [2 \<mapsto> [''name'' \<mapsto> JsStr ''intro'']]\<rparr>,
       2 \<mapsto> \<lparr>number = 2, members = [7 \<mapsto> [''name'' \<mapsto> JsStr ''logo'']]\<rparr>]\<rparr>"

definition exChannelState :: vmState where
  "exChannelState = initialState\<lparr>channelSnapshots :=
      [3 \<mapsto> [''a'' \<mapsto> JsNum 1, ''b'' \<mapsto> JsNum 2],
       4 \<mapsto> [''displayName'' \<mapsto> JsStr ''bg'']]\<rparr>"

definition exBreakpointState :: vmState where
  "exBreakpointState = initialState\<lparr>breakpoints :=
      [\<lparr>script_name = ''foo''\<rparr>, \<lparr>script_name = ''bar''\<rparr>, \<lparr>script_name = ''foo''\<rparr>]\<rparr>"

definition exMember :: iCastMemberIdentifier where
  "exMember = \<lparr>castNumber = 1, memberNumber = 2\<rparr>"

definition exMember2 :: iCastMemberIdentifier where
  "exMember2 = \<lparr>castNumber = 1, memberNumber = 9\<rparr>"

text \<open>A ledger that already holds token \<open>c\<close> for \<open>exMember\<close>, and one timer.\<close>

definition exLedgerState :: vmState where
  "exLedgerState = initialState\<lparr>
      timeoutHandles := [''tick'' \<mapsto> JsNum 7],
      subscribedMemberTokens := [\<lparr>memberRef = exMember, id_t = ''c''\<rparr>]\<rparr>"

text \<open>A ledger that holds token \<open>c\<close> for another member.\<close>

definition exLedgerState2 :: vmState where
  "exLedgerState2 = initialState\<lparr>
      subscribedMemberTokens := [\<lparr>memberRef = exMember2, id_t = ''c''\<rparr>]\<rparr>"

section \<open>Properties\<close>

subsection \<open>cast-member-changed on a missing library or member\<close>

text \<open>
  Library 1 of \<open>exCastState\<close> has member 2 only. A cast-member-changed event for member 5
  of library 1 is accepted, and the state it returns has an entry for member 5 that the
  state before did not have: the event is neither rejected nor kept from creating the entry.
\<close>

theorem castMemberChanged_creates_member_counterexample:
  "memberEntry exCastState 1 5 = None \<and>
   castMemberChanged exCastState (1, 5) (JsStr ''bitmap'') =
     Inr (exCastState\<lparr>castSnapshots := (castSnapshots exCastState)(1 \<mapsto>
            \<lparr>number = 1,
             members = [2 \<mapsto> [''name'' \<mapsto> JsStr ''intro''],
                        5 \<mapsto> [''snapshot'' \<mapsto> JsStr ''bitmap'']]\<rparr>)\<rparr>) \<and>
   memberEntry (projr (castMemberChanged exCastState (1, 5) (JsStr ''bitmap''))) 1 5 =
     Some [''snapshot'' \<mapsto> JsStr ''bitmap'']"
  by (simp add: castMemberChanged_def memberEntry_def exCastState_def initialState_def spread_def)

text \<open>
  C1 (amended). When the cast library of a cast-member-changed event is not in the cast
  snapshots, the step raises a fault and returns no new state, so the library is not
  created. When the library is there and the member entry is not, the step succeeds and
  creates the entry, holding the snapshot only; the library's number, every other member
  entry, every other library and every other field of the state stay as they were.
\<close>

theorem castMemberChanged_missing:
  "(castSnapshots state lib = None \<longrightarrow>
      castMemberChanged state (lib, mem) snap = Inl TypeError \<and>
      reducer state (CastMemberChanged (lib, mem) snap) = Inl TypeError) \<and>
   (castSnapshots state lib \<noteq> None \<and> memberEntry state lib mem = None \<longrightarrow>
      (\<exists>state'. castMemberChanged state (lib, mem) snap = Inr state' \<and>
         memberEntry state' lib mem = Some [''snapshot'' \<mapsto> snap] \<and>
         map_option number (castSnapshots state' lib) = map_option number (castSnapshots state lib) \<and>
         (\<forall>l m. (l, m) \<noteq> (lib, mem) \<longrightarrow> memberEntry state' l m = memberEntry state l m) \<and>
         (\<forall>l. l \<noteq> lib \<longrightarrow> castSnapshots state' l = castSnapshots state l) \<and>
         state'\<lparr>castSnapshots := castSnapshots state\<rparr> = state))"
  by (auto simp add: castMemberChanged_def memberEntry_def spread_def split: option.splits)

theorem castMemberChanged_missing_witness:
  "castSnapshots exCastState 3 = None \<and>
   reducer exCastState (CastMemberChanged (3, 1) (JsStr ''bitmap'')) = Inl TypeError \<and>
   castSnapshots exCastState 1 \<noteq> None \<and> memberEntry exCastState 1 5 = None \<and>
   (\<exists>state'. castMemberChanged exCastState (1, 5) (JsStr ''bitmap'') = Inr state' \<and>
      memberEntry state' 1 5 = Some [''snapshot'' \<mapsto> JsStr ''bitmap''] \<and>
      memberEntry state' 1 2 = Some [''name'' \<mapsto> JsStr ''intro''] \<and>
      castSnapshots state' 2 = castSnapshots exCastState 2)"
proof -
  have h1: "castSnapshots exCastState 3 = None"
    by (simp add: exCastState_def initialState_def)
  have h2: "castSnapshots exCastState 1 \<noteq> None \<and> memberEntry exCastState 1 5 = None"
    by (simp add: exCastState_def initialState_def memberEntry_def)
  have e2: "memberEntry exCastState 1 2 = Some [''name'' \<mapsto> JsStr ''intro'']"
    by (simp add: exCastState_def initialState_def memberEntry_def)
  from castMemberChanged_missing [of exCastState 3 1 "JsStr ''bitmap''"] h1
  have r1: "reducer exCastState (CastMemberChanged (3, 1) (JsStr ''bitmap'')) = Inl TypeError"
    by simp
  from castMemberChanged_missing [of exCastState 1 5 "JsStr ''bitmap''"] h2
  obtain state' where s: "castMemberChanged exCastState (1, 5) (JsStr ''bitmap'') = Inr state'"
      "memberEntry state' 1 5 = Some [''snapshot'' \<mapsto> JsStr ''bitmap'']"
      "\<forall>l m. (l, m) \<noteq> (1, 5) \<longrightarrow> memberEntry state' l m = memberEntry exCastState l m"
      "\<forall>l. l \<noteq> 1 \<longrightarrow> castSnapshots state' l = castSnapshots exCastState l"
    by blast
  from s(3) e2 have "memberEntry state' 1 2 = Some [''name'' \<mapsto> JsStr ''intro'']" by simp
  moreover from s(4) have "castSnapshots state' 2 = castSnapshots exCastState 2" by simp
  ultimately show ?thesis using h1 h2 r1 s(1,2) by blast
qed

subsection \<open>member-by-identifier\<close>

text \<open>
  What the selector returns in each of its three cases: a fault when the library is not
  there, \<^verbatim>\<open>undefined\<close> when the member is not there or has no snapshot, the snapshot
  otherwise.
\<close>

lemma selectMemberSnapshot_cases:
  "selectMemberSnapshot state c m =
     (case castSnapshots state c of
        None \<Rightarrow> Inl TypeError
      | Some cast \<Rightarrow>
          (case members cast m of
             None \<Rightarrow> Inr JsUndefined
           | Some e \<Rightarrow> Inr (case e ''snapshot'' of None \<Rightarrow> JsUndefined | Some v \<Rightarrow> v)))"
  by (simp add: selectMemberSnapshot_def selectCastSnapshot_def optSnapshot_def
        split: option.splits)

text \<open>
  C2. The member-by-identifier projection is to return absent, and raise no fault, when the
  cast number or the member number is missing. On the initial state, where no cast number
  has been seen, \<^verbatim>\<open>selectMemberSnapshot\<close> and \<^verbatim>\<open>selectMemberSnapshotById\<close> raise a
  \<^verbatim>\<open>TypeError\<close> for cast 1, member 1.
\<close>

theorem selectMemberSnapshot_unknown_cast_throws:
  "selectMemberSnapshot (initialState :: vmState) 1 1 = Inl TypeError \<and>
   selectMemberSnapshotById (initialState :: vmState) \<lparr>castNumber = 1, memberNumber = 1\<rparr> =
     Inl TypeError"
  by (simp add: selectMemberSnapshotById_def selectMemberSnapshot_def selectCastSnapshot_def
        initialState_def)

subsection \<open>scope-list-changed\<close>

text \<open>
  C3. After scope-list-changed the scope stack is the new scope list and the datum-snapshot
  cache is empty, whatever the cache held before; the step raises no fault.
\<close>

theorem scopeListChanged_clears_datums:
  "scopes (scopeListChanged state payload) = payload \<and>
   datumSnapshots (scopeListChanged state payload) = Map.empty \<and>
   reducer state (ScopeListChanged payload) = Inr (scopeListChanged state payload)"
  by (simp add: scopeListChanged_def)

text \<open>
  C10. scope-list-changed leaves every field other than the scope stack and the
  datum-snapshot cache as it was; the script-instance snapshot cache is not cleared.
\<close>

theorem scopeListChanged_frame:
  "castNames (scopeListChanged state payload) = castNames state \<and>
   castSnapshots (scopeListChanged state payload) = castSnapshots state \<and>
   scoreSnapshot (scopeListChanged state payload) = scoreSnapshot state \<and>
   currentFrame (scopeListChanged state payload) = currentFrame state \<and>
   scriptError (scopeListChanged state payload) = scriptError state \<and>
   breakpoints (scopeListChanged state payload) = breakpoints state \<and>
   globals (scopeListChanged state payload) = globals state \<and>
   timeoutHandles (scopeListChanged state payload) = timeoutHandles state \<and>
   scriptInstanceSnapshots (scopeListChanged state payload) = scriptInstanceSnapshots state \<and>
   channelSnapshots (scopeListChanged state payload) = channelSnapshots state \<and>
   subscribedMemberTokens (scopeListChanged state payload) = subscribedMemberTokens state \<and>
   isMovieLoaded (scopeListChanged state payload) = isMovieLoaded state"
  by (simp add: scopeListChanged_def)

subsection \<open>breakpoints-for-script\<close>

text \<open>
  With the empty string as filter, \<^verbatim>\<open>!scriptName\<close> holds and every breakpoint is returned,
  also those whose script name is not the empty string.
\<close>

theorem selectBreakpoints_empty_filter_counterexample:
  "selectBreakpoints exBreakpointState (Some '''') =
     [\<lparr>script_name = ''foo''\<rparr>, \<lparr>script_name = ''bar''\<rparr>, \<lparr>script_name = ''foo''\<rparr>] \<and>
   script_name \<lparr>script_name = ''foo''\<rparr> \<noteq> ''''"
  by (simp add: selectBreakpoints_def notStr_def exBreakpointState_def initialState_def)

text \<open>
  C4 (amended). For every non-empty filter string \<open>s\<close>, breakpoints-for-script returns the
  breakpoints whose script name equals \<open>s\<close>, in the order of the breakpoint list; with no
  filter it returns the breakpoint list as it is.
\<close>

theorem selectBreakpoints_filter:
  "(s \<noteq> [] \<longrightarrow>
      selectBreakpoints state (Some s) = filter (\<lambda>b. script_name b = s) (breakpoints state)) \<and>
   selectBreakpoints state None = breakpoints state"
  by (simp add: selectBreakpoints_def notStr_def)

theorem selectBreakpoints_filter_witness:
  "''foo'' \<noteq> [] \<and>
   selectBreakpoints exBreakpointState (Some ''foo'') =
     [\<lparr>script_name = ''foo''\<rparr>, \<lparr>script_name = ''foo''\<rparr>] \<and>
   selectBreakpoints exBreakpointState None = breakpoints exBreakpointState"
  using selectBreakpoints_filter [of "''foo''" exBreakpointState]
  by (simp add: exBreakpointState_def initialState_def)

subsection \<open>The subscription ledger\<close>

text \<open>
  \<open>exLedgerState\<close> already holds token \<open>c\<close> for \<open>exMember\<close>. Subscribing \<open>exMember\<close> under
  \<open>a\<close> and \<open>b\<close> and unsubscribing both leaves the record of token \<open>c\<close>: a record for the
  member remains.
\<close>

theorem subscription_counterexample:
  "subscribedMemberTokens
     (memberUnsubscribed
       (memberUnsubscribed
         (memberSubscribed
           (memberSubscribed exLedgerState \<lparr>memberRef = exMember, id_t = ''a''\<rparr>)
           \<lparr>memberRef = exMember, id_t = ''b''\<rparr>)
         ''a'')
       ''b'')
   = [\<lparr>memberRef = exMember, id_t = ''c''\<rparr>]"
  by (simp add: memberSubscribed_def memberUnsubscribed_def exLedgerState_def initialState_def)

text \<open>
  C5 (amended). For every state and distinct tokens \<open>a\<close> and \<open>b\<close>: after subscribing member
  \<open>m\<close> under \<open>a\<close> and under \<open>b\<close> and unsubscribing \<open>a\<close>, the record of \<open>m\<close> with token \<open>b\<close> is
  in the ledger. After unsubscribing \<open>b\<close> too, the ledger is the ledger of the state before
  without the records whose token is \<open>a\<close> or \<open>b\<close>; so no record for \<open>m\<close> remains, provided
  the state before held no record for \<open>m\<close> under a token other than \<open>a\<close> and \<open>b\<close>.
\<close>

theorem subscription_ref_counting:
  assumes "a \<noteq> b"
  shows "\<lparr>memberRef = m, id_t = b\<rparr> \<in> set (subscribedMemberTokens
           (memberUnsubscribed
             (memberSubscribed (memberSubscribed state \<lparr>memberRef = m, id_t = a\<rparr>)
                \<lparr>memberRef = m, id_t = b\<rparr>) a)) \<and>
         subscribedMemberTokens
           (memberUnsubscribed
             (memberUnsubscribed
               (memberSubscribed (memberSubscribed state \<lparr>memberRef = m, id_t = a\<rparr>)
                  \<lparr>memberRef = m, id_t = b\<rparr>) a) b)
         = filter (\<lambda>t. id_t t \<noteq> a \<and> id_t t \<noteq> b) (subscribedMemberTokens state) \<and>
         ((\<forall>t \<in> set (subscribedMemberTokens state).
             memberRef t = m \<longrightarrow> id_t t = a \<or> id_t t = b) \<longrightarrow>
          (\<forall>t \<in> set (subscribedMemberTokens
             (memberUnsubscribed
               (memberUnsubscribed
                 (memberSubscribed (memberSubscribed state \<lparr>memberRef = m, id_t = a\<rparr>)
                    \<lparr>memberRef = m, id_t = b\<rparr>) a) b)). memberRef t \<noteq> m))"
  using assms by (auto simp add: memberSubscribed_def memberUnsubscribed_def)

theorem subscription_ref_counting_witness:
  "''a'' \<noteq> ''b'' \<and>
   filter (\<lambda>t. memberRef t = exMember \<and> id_t t \<noteq> ''a'' \<and> id_t t \<noteq> ''b'')
     (subscribedMemberTokens exLedgerState2) = [] \<and>
   subscribedMemberTokens
     (memberUnsubscribed
       (memberSubscribed (memberSubscribed exLedgerState2 \<lparr>memberRef = exMember, id_t = ''a''\<rparr>)
          \<lparr>memberRef = exMember, id_t = ''b''\<rparr>) ''a'')
     = [\<lparr>memberRef = exMember2, id_t = ''c''\<rparr>, \<lparr>memberRef = exMember, id_t = ''b''\<rparr>] \<and>
   subscribedMemberTokens
     (memberUnsubscribed
       (memberUnsubscribed
         (memberSubscribed (memberSubscribed exLedgerState2 \<lparr>memberRef = exMember, id_t = ''a''\<rparr>)
            \<lparr>memberRef = exMember, id_t = ''b''\<rparr>) ''a'') ''b'')
     = [\<lparr>memberRef = exMember2, id_t = ''c''\<rparr>] \<and>
   filter (\<lambda>t. memberRef t = exMember)
     (subscribedMemberTokens
       (memberUnsubscribed
         (memberUnsubscribed
           (memberSubscribed (memberSubscribed exLedgerState2 \<lparr>memberRef = exMember, id_t = ''a''\<rparr>)
              \<lparr>memberRef = exMember, id_t = ''b''\<rparr>) ''a'') ''b'')) = []"
  using subscription_ref_counting [of "''a''" "''b''" exMember exLedgerState2]
  by (simp add: exLedgerState2_def exMember_def exMember2_def initialState_def
        memberSubscribed_def memberUnsubscribed_def)

subsection \<open>cast-member-list-changed\<close>

text \<open>
  C6. A cast-member-list-changed event for library \<open>L\<close> leaves the snapshot of every other
  library \<open>L'\<close>, and so every member entry under it, as it was.
\<close>

theorem castMemberListChanged_isolation:
  assumes "L' \<noteq> L"
  shows "castSnapshots (castMemberListChanged state L ms) L' = castSnapshots state L' \<and>
         memberEntry (castMemberListChanged state L ms) L' m = memberEntry state L' m \<and>
         reducer state (CastMemberListChanged L ms) = Inr (castMemberListChanged state L ms)"
  using assms by (simp add: castMemberListChanged_def memberEntry_def)

theorem castMemberListChanged_isolation_witness:
  "(2::int) \<noteq> 1 \<and>
   castSnapshots (castMemberListChanged exCastState 1 Map.empty) 2 = castSnapshots exCastState 2 \<and>
   memberEntry (castMemberListChanged exCastState 1 Map.empty) 2 7 =
     Some [''name'' \<mapsto> JsStr ''logo''] \<and>
   memberEntry (castMemberListChanged exCastState 1 Map.empty) 1 2 = None"
  using castMemberListChanged_isolation [of 2 1 exCastState Map.empty 7]
  by (simp add: exCastState_def initialState_def memberEntry_def castMemberListChanged_def)

subsection \<open>channel-display-name-changed\<close>

text \<open>
  C7. When the state has an entry for the channel, channel-display-name-changed sets the
  \<^verbatim>\<open>displayName\<close> field of that entry and leaves every other field of the entry, and
  every other channel, as it was.
\<close>

theorem channelDisplayNameChanged_partial_merge:
  assumes "channelSnapshots state n = Some ch"
  shows "\<exists>ch'. channelSnapshots (channelDisplayNameChanged state n d) n = Some ch' \<and>
           ch' ''displayName'' = Some (JsStr d) \<and>
           (\<forall>f. f \<noteq> ''displayName'' \<longrightarrow> ch' f = ch f) \<and>
           (\<forall>n'. n' \<noteq> n \<longrightarrow>
              channelSnapshots (channelDisplayNameChanged state n d) n' =
              channelSnapshots state n') \<and>
           reducer state (ChannelDisplayNameChanged n d) =
             Inr (channelDisplayNameChanged state n d)"
  using assms by (simp add: channelDisplayNameChanged_def spread_def)

theorem channelDisplayNameChanged_partial_merge_witness:
  "channelSnapshots exChannelState 3 = Some [''a'' \<mapsto> JsNum 1, ''b'' \<mapsto> JsNum 2] \<and>
   (\<exists>ch'. channelSnapshots (channelDisplayNameChanged exChannelState 3 ''X'') 3 = Some ch' \<and>
           ch' ''displayName'' = Some (JsStr ''X'') \<and>
           (\<forall>f. f \<noteq> ''displayName'' \<longrightarrow> ch' f = [''a'' \<mapsto> JsNum 1, ''b'' \<mapsto> JsNum 2] f) \<and>
           (\<forall>n'. n' \<noteq> 3 \<longrightarrow>
              channelSnapshots (channelDisplayNameChanged exChannelState 3 ''X'') n' =
              channelSnapshots exChannelState n') \<and>
           reducer exChannelState (ChannelDisplayNameChanged 3 ''X'') =
             Inr (channelDisplayNameChanged exChannelState 3 ''X''))"
proof -
  have h: "channelSnapshots exChannelState 3 = Some [''a'' \<mapsto> JsNum 1, ''b'' \<mapsto> JsNum 2]"
    by (simp add: exChannelState_def initialState_def)
  show ?thesis
    using h channelDisplayNameChanged_partial_merge [OF h, of "''X''"] by blast
qed

subsection \<open>movie-loaded\<close>

text \<open>
  C8. Applying movie-loaded twice gives the same state as applying it once, from every
  state, and the loaded flag is true in it.
\<close>

theorem movieLoaded_idempotent:
  "movieLoaded (movieLoaded state) = movieLoaded state \<and>
   reducer (movieLoaded state) MovieLoaded = reducer state MovieLoaded \<and>
   isMovieLoaded (movieLoaded state)"
  by (simp add: movieLoaded_def)

subsection \<open>Removing what is not there\<close>

text \<open>
  C9. timeout-handle-removed with a timer name that has no handle returns the state as it
  was, and so does member-unsubscribed with a token that no subscription record carries;
  neither raises a fault.
\<close>

theorem noop_removals:
  "(timeoutHandles state name = None \<longrightarrow> reducer state (RemoveTimeoutHandle name) = Inr state) \<and>
   ((\<forall>t \<in> set (subscribedMemberTokens state). id_t t \<noteq> tok) \<longrightarrow>
      reducer state (MemberUnsubscribed tok) = Inr state)"
proof (intro conjI impI)
  assume "timeoutHandles state name = None"
  then have "(timeoutHandles state)(name := None) = timeoutHandles state"
    by (rule fun_upd_idem)
  then show "reducer state (RemoveTimeoutHandle name) = Inr state"
    by (simp add: removeTimeoutHandle_def)
next
  assume "\<forall>t \<in> set (subscribedMemberTokens state). id_t t \<noteq> tok"
  then have "filter (\<lambda>t. id_t t \<noteq> tok) (subscribedMemberTokens state) =
             subscribedMemberTokens state"
    by (simp add: filter_id_conv)
  then show "reducer state (MemberUnsubscribed tok) = Inr state"
    by (simp add: memberUnsubscribed_def)
qed

theorem noop_removals_witness:
  "timeoutHandles exLedgerState ''tock'' = None \<and>
   reducer exLedgerState (RemoveTimeoutHandle ''tock'') = Inr exLedgerState \<and>
   filter (\<lambda>t. id_t t = ''zz'') (subscribedMemberTokens exLedgerState) = [] \<and>
   reducer exLedgerState (MemberUnsubscribed ''zz'') = Inr exLedgerState"
  using noop_removals [of exLedgerState "''tock''" "''zz''"]
  by (simp add: exLedgerState_def initialState_def)

end
